theory Spec2Isabelle
  imports Complex_Main "HOL-Library.Word"
begin

section \<open>Strings\<close>

text \<open>
  A TypeScript string is a sequence of UTF-16 code units. The tags of the news page are
  Cyrillic, so a string is modelled as a list of 16-bit words; \<open>lit\<close> embeds an ASCII
  literal of the source. The empty string \<open>''\<close> is the empty list, and it is the only
  falsy string.
\<close>

type_synonym jsstring = "16 word list"

definition lit :: "string \<Rightarrow> jsstring" where
  "lit s = map of_char s"

text \<open>\<^verbatim>\<open>Array.prototype.join(sep)\<close> on an array of strings.\<close>

fun join :: "jsstring \<Rightarrow> jsstring list \<Rightarrow> jsstring" where
  "join sep [] = []"
| "join sep [x] = x"
| "join sep (x # y # ys) = x @ sep @ join sep (y # ys)"

text \<open>
  A value that the source declares as \<^verbatim>\<open>T | null\<close> and that is filled from a response.
  \<^verbatim>\<open>http.get<T>\<close> parses the body as JSON and casts it to \<open>T\<close> without looking at it,
  so such a value is \<open>null\<close>, a value of the declared shape, or any other JSON value
  (given by its text).
\<close>

datatype 'a json = Null | Shaped 'a | Misshaped jsstring

section \<open>The news model\<close>

text \<open>
  \<^verbatim>\<open>type News\<close> as declared beside the API service. The optional \<open>timeline\<close> is an
  \<open>option\<close>. Two field names carry a suffix: \<open>id\<close> is a constant of HOL and \<open>tags\<close> is
  also a field of the filter argument.
\<close>

record News =
  id_news :: jsstring
  title :: jsstring
  content :: jsstring
  tags_news :: "jsstring list"
  createdAt :: jsstring
  hotnessScore :: real
  isConfirmed :: bool
  sources :: "jsstring list"
  timeline :: "jsstring list option"

section \<open>The API service\<close>

text \<open>
  \<^verbatim>\<open>this.http.get<T>(apiUrl)\<close> returns a cold observable: a description of one GET request
  to \<open>apiUrl\<close>. The HTTP client and the server behind it are not part of the repository;
  a transport is a function from the request URL to the outcome of the request, and the
  service never looks at that outcome. An outcome is either an error on the error
  channel of the observable (no connection or a status that is not 2xx, a body that is
  not JSON, a not-found status), or the parsed body of a 2xx response, emitted as the
  one value of the observable whatever its shape.
\<close>

datatype observable = HttpGet jsstring

datatype fetch_error = TransportError | DecodeError | NotFound

fun fetch :: "(jsstring \<Rightarrow> fetch_error + 'a json) \<Rightarrow> observable \<Rightarrow> fetch_error + 'a json" where
  "fetch http (HttpGet apiUrl) = http apiUrl"

definition baseUrl :: jsstring where
  "baseUrl = lit ''http://158.160.195.186/api''"

record filters =
  tags :: "jsstring list"
  onlyVerified :: bool

text \<open>
  \<^verbatim>\<open>getAllNews(filters?)\<close>. An absent argument is \<open>None\<close>. The fields of a present
  argument have the declared types \<^verbatim>\<open>string[]\<close> and \<^verbatim>\<open>boolean\<close>, on which
  \<^verbatim>\<open>filters.tags || []\<close> and \<^verbatim>\<open>filters.onlyVerified || false\<close> are the identity (every
  array is truthy). A query string is falsy exactly when it is empty.
\<close>

definition getAllNews :: "filters option \<Rightarrow> observable" where
  "getAllNews fs =
     (let apiUrl = baseUrl @ lit ''/news'' in
      case fs of
        None \<Rightarrow> HttpGet apiUrl
      | Some f \<Rightarrow>
          (let tgs = tags f;
               onlyVer = onlyVerified f;
               tagsString = (if length tgs > 0 then lit ''tags='' @ join (lit '','') tgs else []);
               verifiedString = (if onlyVer then lit ''onlyConfirmed=true'' else []);
               queryParams = join (lit ''&'') (filter (\<lambda>param. param \<noteq> []) [tagsString, verifiedString]);
               apiUrl' = apiUrl @ (if queryParams \<noteq> [] then lit ''?'' @ queryParams else [])
           in HttpGet apiUrl'))"

definition getNews :: "jsstring \<Rightarrow> observable" where
  "getNews i = (let apiUrl = baseUrl @ lit ''/news/'' @ i in HttpGet apiUrl)"

section \<open>Running a component\<close>

text \<open>
  A component runs on the single UI thread. \<^verbatim>\<open>obs.subscribe(next)\<close> issues the request at
  once and returns; the callback runs later, when the response arrives. A run is the
  component together with the requests that are in flight, in the order they were
  issued. Every subscription of the source passes a \<open>next\<close> callback only, so an error
  on the error channel calls nothing, and every emitted body is handed to \<open>next\<close> as it
  is: there is no decoding step between the response and the callback.
\<close>

record 'c run =
  component :: 'c
  inflight :: "observable list"

definition subscribe :: "observable \<Rightarrow> 'c run \<Rightarrow> 'c run" where
  "subscribe obs r = r\<lparr>inflight := inflight r @ [obs]\<rparr>"

text \<open>
  The response \<open>res\<close> to the \<open>k\<close>-th request in flight arrives, for a subscriber whose
  callback is \<open>next\<close>. Responses may arrive in any order. There is nothing to deliver
  when no such request is in flight.
\<close>

definition respond ::
  "('v json \<Rightarrow> 'c \<Rightarrow> 'c) \<Rightarrow> nat \<Rightarrow> fetch_error + 'v json \<Rightarrow> 'c run \<Rightarrow> 'c run" where
  "respond next k res r =
     (if k < length (inflight r) then
        (let r' = r\<lparr>inflight := take k (inflight r) @ drop (Suc k) (inflight r)\<rparr> in
         case res of
           Inl e \<Rightarrow> r'
         | Inr v \<Rightarrow> r'\<lparr>component := next v (component r')\<rparr>)
      else r)"

section \<open>The news page\<close>

text \<open>
  The fields of \<^verbatim>\<open>NewsPage\<close> that change: the signal \<open>newsList\<close> (\<^verbatim>\<open>News[] | null\<close>) and
  the values of the two form controls, each of which may be \<open>null\<close>.
\<close>

record NewsPage =
  newsList :: "News list json"
  selectedTags :: "jsstring list option"
  onlyConfirmed :: "bool option"

definition NewsPage_new :: NewsPage where
  "NewsPage_new = \<lparr>newsList = Null, selectedTags = Some [], onlyConfirmed = Some False\<rparr>"

definition NewsPage_start :: "NewsPage run" where
  "NewsPage_start = \<lparr>component = NewsPage_new, inflight = []\<rparr>"

text \<open>\<^verbatim>\<open>this.filtersForm.get('selectedTags')?.value || []\<close>\<close>

definition currentTags :: "NewsPage \<Rightarrow> jsstring list" where
  "currentTags p = (case selectedTags p of None \<Rightarrow> [] | Some ts \<Rightarrow> ts)"

text \<open>\<^verbatim>\<open>this.filtersForm.get('onlyConfirmed')?.value || false\<close>\<close>

definition currentOnlyVerified :: "NewsPage \<Rightarrow> bool" where
  "currentOnlyVerified p = (case onlyConfirmed p of None \<Rightarrow> False | Some b \<Rightarrow> b)"

text \<open>The callback of both subscriptions: \<^verbatim>\<open>(news) => { this.newsList.set(news) }\<close>\<close>

definition setNewsList :: "News list json \<Rightarrow> NewsPage \<Rightarrow> NewsPage" where
  "setNewsList news p = p\<lparr>newsList := news\<rparr>"

definition ngOnInit :: "NewsPage run \<Rightarrow> NewsPage run" where
  "ngOnInit r = subscribe (getAllNews None) r"

definition onTagChange :: "jsstring \<Rightarrow> bool \<Rightarrow> NewsPage \<Rightarrow> NewsPage" where
  "onTagChange tag isChecked p =
     (let cur = currentTags p in
      if isChecked then p\<lparr>selectedTags := Some (cur @ [tag])\<rparr>
      else p\<lparr>selectedTags := Some (filter (\<lambda>t. t \<noteq> tag) cur)\<rparr>)"

definition onFiltersSubmit :: "NewsPage run \<Rightarrow> NewsPage run" where
  "onFiltersSubmit r =
     (let tgs = currentTags (component r);
          onlyVer = currentOnlyVerified (component r)
      in subscribe (getAllNews (Some \<lparr>tags = tgs, onlyVerified = onlyVer\<rparr>)) r)"

definition NewsPage_respond ::
  "nat \<Rightarrow> fetch_error + News list json \<Rightarrow> NewsPage run \<Rightarrow> NewsPage run" where
  "NewsPage_respond = respond setNewsList"

section \<open>The news details page\<close>

record NewsDetailsPage =
  newsId :: "jsstring option"
  news :: "News json"

definition NewsDetailsPage_new :: NewsDetailsPage where
  "NewsDetailsPage_new = \<lparr>newsId = None, news = Null\<rparr>"

definition NewsDetailsPage_start :: "NewsDetailsPage run" where
  "NewsDetailsPage_start = \<lparr>component = NewsDetailsPage_new, inflight = []\<rparr>"

text \<open>The callback \<^verbatim>\<open>(news) => { this.news.set(news); console.log(news) }\<close>\<close>

definition setNews :: "News json \<Rightarrow> NewsDetailsPage \<Rightarrow> NewsDetailsPage" where
  "setNews n d = d\<lparr>news := n\<rparr>"

text \<open>
  \<^verbatim>\<open>ngOnInit\<close> of the details page. \<open>param\<close> is what the router gives for
  \<^verbatim>\<open>this.route.snapshot.paramMap.get('id')\<close>: a string, or \<open>null\<close>. The test
  \<^verbatim>\<open>if (this.newsId)\<close> is false for \<open>null\<close> and for the empty string.
\<close>

definition NewsDetailsPage_ngOnInit :: "jsstring option \<Rightarrow> NewsDetailsPage run \<Rightarrow> NewsDetailsPage run" where
  "NewsDetailsPage_ngOnInit param r =
     (let r' = r\<lparr>component := (component r)\<lparr>newsId := param\<rparr>\<rparr> in
      case newsId (component r') of
        None \<Rightarrow> r'
      | Some i \<Rightarrow> (if i \<noteq> [] then subscribe (getNews i) r' else r'))"

definition NewsDetailsPage_respond ::
  "nat \<Rightarrow> fetch_error + News json \<Rightarrow> NewsDetailsPage run \<Rightarrow> NewsDetailsPage run" where
  "NewsDetailsPage_respond = respond setNews"

section \<open>Sequences of events\<close>

text \<open>A sequence of checkbox events on the news page, oldest first.\<close>

fun toggles :: "(jsstring \<times> bool) list \<Rightarrow> NewsPage \<Rightarrow> NewsPage" where
  "toggles [] p = p"
| "toggles ((tag, isChecked) # ops) p = toggles ops (onTagChange tag isChecked p)"

text \<open>
  The events a checkbox can produce: a tag is switched on only while it is not selected.
\<close>

fun checkbox_toggles :: "(jsstring \<times> bool) list \<Rightarrow> NewsPage \<Rightarrow> bool" where
  "checkbox_toggles [] p = True"
| "checkbox_toggles ((tag, isChecked) # ops) p =
     ((if isChecked then tag \<notin> set (currentTags p) else True)
      \<and> checkbox_toggles ops (onTagChange tag isChecked p))"

text \<open>
  A sequence of responses arriving at the details page. Nothing else changes that
  component once it is active: it has no method besides \<^verbatim>\<open>ngOnInit\<close>.
\<close>

fun NewsDetailsPage_responses ::
  "(nat \<times> (fetch_error + News json)) list \<Rightarrow> NewsDetailsPage run \<Rightarrow> NewsDetailsPage run" where
  "NewsDetailsPage_responses [] r = r"
| "NewsDetailsPage_responses ((k, res) # evs) r =
     NewsDetailsPage_responses evs (NewsDetailsPage_respond k res r)"

section \<open>The view state of the list\<close>

text \<open>
  The specification speaks of three states of the list: \<open>Empty\<close> (no fetch issued yet),
  \<open>Loading\<close> (fetch issued, no data yet held) and \<open>Populated\<close> (holds the last
  successful sequence). The page stores the signal \<open>newsList\<close> only, so the state is read
  off a run: the list, when one is held; otherwise whether a request is in flight. The
  specification has no name for a page that holds a value which is not a sequence of
  items; it is \<open>Unshaped\<close> here.
\<close>

datatype list_view = Empty | Loading | Populated "News list" | Unshaped jsstring

definition list_view_state :: "NewsPage run \<Rightarrow> list_view" where
  "list_view_state r =
     (case newsList (component r) of
        Shaped items \<Rightarrow> Populated items
      | Null \<Rightarrow> (if inflight r = [] then Empty else Loading)
      | Misshaped b \<Rightarrow> Unshaped b)"

text \<open>
  The error taxonomy of the specification, applied to an outcome: a transport error, a
  not-found answer, or a decode error, which is a response body that does not match the
  expected shape, whether or not it is JSON. \<open>None\<close> is a fetch that succeeds.
\<close>

fun failure_kind :: "fetch_error + 'a json \<Rightarrow> fetch_error option" where
  "failure_kind (Inl e) = Some e"
| "failure_kind (Inr (Shaped v)) = None"
| "failure_kind (Inr Null) = Some DecodeError"
| "failure_kind (Inr (Misshaped b)) = Some DecodeError"

section \<open>Fixtures\<close>

text \<open>
  Two of the tags the page offers, as UTF-16 code units: the Russian words for finance
  (U+0424 U+0438 U+043D U+0430 U+043D U+0441 U+044B) and for fintech
  (U+0424 U+0438 U+043D U+0442 U+0435 U+0445).
\<close>

definition tag_Finansy :: jsstring where
  "tag_Finansy = [0x424, 0x438, 0x43D, 0x430, 0x43D, 0x441, 0x44B]"

definition tag_Fintech :: jsstring where
  "tag_Fintech = [0x424, 0x438, 0x43D, 0x442, 0x435, 0x445]"

definition fixture_item :: "jsstring \<Rightarrow> News" where
  "fixture_item k = \<lparr>id_news = k, title = lit ''t'', content = lit ''c'', tags_news = [],
     createdAt = lit ''2024-01-15T10:30:00.000Z'', hotnessScore = 50, isConfirmed = False,
     sources = [], timeline = None\<rparr>"

text \<open>
  A transport in front of a server that holds \<open>items\<close>: it answers the URL that \<open>getNews\<close>
  builds for the id of an item it holds with that item, and every other URL with
  \<open>NotFound\<close>.
\<close>

definition fixture_http :: "News list \<Rightarrow> jsstring \<Rightarrow> fetch_error + News json" where
  "fixture_http items url =
     (case find (\<lambda>n. getNews (id_news n) = HttpGet url) items of
        Some n \<Rightarrow> Inr (Shaped n)
      | None \<Rightarrow> Inl NotFound)"

text \<open>A page that holds one item after a successful first fetch.\<close>

definition fixture_populated :: "NewsPage run" where
  "fixture_populated =
     NewsPage_respond 0 (Inr (Shaped [fixture_item (lit ''1'')])) (ngOnInit NewsPage_start)"

section \<open>The query string of the list request\<close>

lemma getAllNews_Some:
  "getAllNews (Some f) = HttpGet (baseUrl @ lit ''/news'' @
    (if tags f = [] then (if onlyVerified f then lit ''?onlyConfirmed=true'' else [])
     else lit ''?tags='' @ join (lit '','') (tags f)
          @ (if onlyVerified f then lit ''&onlyConfirmed=true'' else [])))"
  by (simp add: getAllNews_def lit_def)

lemma join_Cons: "join sep (x # xs) = x @ concat (map (\<lambda>t. sep @ t) xs)"
  by (induction xs arbitrary: x) simp_all

lemma onFiltersSubmit_inflight:
  "inflight (onFiltersSubmit r) =
     inflight r @ [getAllNews (Some \<lparr>tags = currentTags (component r),
                                     onlyVerified = currentOnlyVerified (component r)\<rparr>)]"
  by (simp add: onFiltersSubmit_def subscribe_def Let_def)

text \<open>
  C3. For every filter whose tag sequence is not empty, the URL that \<open>getAllNews\<close> requests
  has the query string that starts with \<open>tags=\<close>, followed by the first tag and then, for
  every further tag in the order of the sequence, a comma and that tag (and then
  \<open>&onlyConfirmed=true\<close> when the flag is set, nothing otherwise). For three tags the
  value is the first, a comma, the second, a comma, the third. In particular, selecting
  the tags for finance and fintech on a new page, in this order and with the
  confirmed-only box unchecked, and submitting issues the one request to
  \<open>/news?tags=\<close>, the first tag, a comma, the second tag.
\<close>

theorem getAllNews_tags_param:
  "(tags f = t # ts \<longrightarrow>
      getAllNews (Some f) = HttpGet (baseUrl @ lit ''/news?tags='' @ t
          @ concat (map (\<lambda>u. lit '','' @ u) ts)
          @ (if onlyVerified f then lit ''&onlyConfirmed=true'' else [])))
   \<and> getAllNews (Some \<lparr>tags = [a, b, c], onlyVerified = False\<rparr>)
       = HttpGet (baseUrl @ lit ''/news?tags='' @ a @ lit '','' @ b @ lit '','' @ c)
   \<and> inflight (onFiltersSubmit
         (NewsPage_start\<lparr>component := toggles [(tag_Finansy, True), (tag_Fintech, True)] NewsPage_new\<rparr>))
       = [HttpGet (baseUrl @ lit ''/news?tags='' @ tag_Finansy @ lit '','' @ tag_Fintech)]"
proof (intro conjI impI)
  assume "tags f = t # ts"
  then show "getAllNews (Some f) = HttpGet (baseUrl @ lit ''/news?tags='' @ t
          @ concat (map (\<lambda>u. lit '','' @ u) ts)
          @ (if onlyVerified f then lit ''&onlyConfirmed=true'' else []))"
    by (simp add: getAllNews_Some join_Cons lit_def)
next
  show "getAllNews (Some \<lparr>tags = [a, b, c], onlyVerified = False\<rparr>)
       = HttpGet (baseUrl @ lit ''/news?tags='' @ a @ lit '','' @ b @ lit '','' @ c)"
    by (simp add: getAllNews_Some lit_def)
next
  have ct: "currentTags (toggles [(tag_Finansy, True), (tag_Fintech, True)] NewsPage_new)
              = [tag_Finansy, tag_Fintech]"
    by (simp add: onTagChange_def currentTags_def NewsPage_new_def)
  have ov: "currentOnlyVerified (toggles [(tag_Finansy, True), (tag_Fintech, True)] NewsPage_new) = False"
    by (simp add: onTagChange_def currentTags_def currentOnlyVerified_def NewsPage_new_def)
  show "inflight (onFiltersSubmit
         (NewsPage_start\<lparr>component := toggles [(tag_Finansy, True), (tag_Fintech, True)] NewsPage_new\<rparr>))
       = [HttpGet (baseUrl @ lit ''/news?tags='' @ tag_Finansy @ lit '','' @ tag_Fintech)]"
    by (simp add: onFiltersSubmit_inflight ct ov getAllNews_Some NewsPage_start_def lit_def
        del: toggles.simps)
qed

theorem getAllNews_tags_param_witness:
  "tags \<lparr>tags = [tag_Finansy, tag_Fintech], onlyVerified = False\<rparr> = tag_Finansy # [tag_Fintech]
   \<and> getAllNews (Some \<lparr>tags = [tag_Finansy, tag_Fintech], onlyVerified = False\<rparr>)
       = HttpGet (lit ''http://158.160.195.186/api/news?tags='' @ tag_Finansy @ lit '','' @ tag_Fintech)"
  using getAllNews_tags_param
    [of "\<lparr>tags = [tag_Finansy, tag_Fintech], onlyVerified = False\<rparr>" tag_Finansy "[tag_Fintech]"]
  by (simp add: baseUrl_def lit_def)

text \<open>
  C4. For every filter with an empty tag sequence and \<open>onlyVerified\<close> false, \<open>getAllNews\<close>
  requests the URL with no query string, the base URL followed by \<open>/news\<close>: the same
  request as a call without a filter.
\<close>

theorem getAllNews_empty_filter_unfiltered:
  "tags f = [] \<Longrightarrow> \<not> onlyVerified f \<Longrightarrow>
   getAllNews (Some f) = HttpGet (baseUrl @ lit ''/news'') \<and> getAllNews (Some f) = getAllNews None"
  by (simp add: getAllNews_def)

theorem getAllNews_empty_filter_unfiltered_witness:
  "tags \<lparr>tags = [], onlyVerified = False\<rparr> = []
   \<and> \<not> onlyVerified \<lparr>tags = [], onlyVerified = False\<rparr>
   \<and> getAllNews (Some \<lparr>tags = [], onlyVerified = False\<rparr>) = HttpGet (lit ''http://158.160.195.186/api/news'')
   \<and> getAllNews (Some \<lparr>tags = [], onlyVerified = False\<rparr>) = getAllNews None"
  using getAllNews_empty_filter_unfiltered [of "\<lparr>tags = [], onlyVerified = False\<rparr>"]
  by (simp add: getAllNews_def baseUrl_def lit_def)

text \<open>
  C5. For every present filter the requested URL is the base URL, \<open>/news\<close> and a query
  string that has the parameter \<open>tags=\<close> with the comma-joined tags exactly when the tag
  sequence is not empty, and the parameter \<open>onlyConfirmed=true\<close> exactly when
  \<open>onlyVerified\<close> is true. A parameter that is not present leaves nothing behind, with
  neither parameter there is no \<open>?\<close> either, and with both a single \<open>&\<close> stands between
  them.
\<close>

theorem getAllNews_query_params:
  "getAllNews (Some f) = HttpGet (baseUrl @ lit ''/news'' @
    (if tags f = [] then (if onlyVerified f then lit ''?'' @ lit ''onlyConfirmed=true'' else [])
     else lit ''?'' @ lit ''tags='' @ join (lit '','') (tags f)
          @ (if onlyVerified f then lit ''&'' @ lit ''onlyConfirmed=true'' else [])))"
  by (simp add: getAllNews_def lit_def)

section \<open>The request of a single item\<close>

text \<open>
  C10. For every string \<open>id\<close>, \<open>getNews\<close> requests the URL made of the base URL,
  \<open>/news/\<close> and \<open>id\<close> as it is, with no escaping and no validation. The URL is a function
  of \<open>id\<close> alone: what follows the fixed prefix is \<open>id\<close>, and two ids give the same request
  only when they are equal. An id with \<open>/\<close>, \<open>?\<close> or \<open>&\<close> puts these characters into the
  path, and the empty id gives the URL that ends in \<open>/news/\<close>.
\<close>

theorem getNews_url_verbatim:
  "getNews i = HttpGet (baseUrl @ lit ''/news/'' @ i)
   \<and> (\<exists>u. getNews i = HttpGet u \<and> drop (length (baseUrl @ lit ''/news/'')) u = i)
   \<and> (getNews i = getNews j) = (i = j)
   \<and> getNews (lit ''a/b?c&d'') = HttpGet (lit ''http://158.160.195.186/api/news/a/b?c&d'')
   \<and> getNews [] = HttpGet (lit ''http://158.160.195.186/api/news/'')"
  by (simp add: getNews_def baseUrl_def lit_def)

text \<open>
  C2. The outcome of \<open>getNews\<close> is the outcome the transport gives for the URL built from
  the id, unchanged. When the transport answers that URL with \<open>NotFound\<close>, \<open>getNews\<close>
  fails with \<open>NotFound\<close> and emits no value at all, and the details page activated with
  this id holds no item after the response. When the transport answers with an item, \<open>getNews\<close>
  yields exactly that item, and the details page activated with a non-empty id holds it.
\<close>

theorem getNews_passes_outcome:
  "(http (baseUrl @ lit ''/news/'' @ i) = Inl NotFound \<longrightarrow>
      fetch http (getNews i) = Inl NotFound
      \<and> (\<forall>v. fetch http (getNews i) \<noteq> Inr v)
      \<and> news (component (NewsDetailsPage_respond 0 (fetch http (getNews i))
            (NewsDetailsPage_ngOnInit (Some i) NewsDetailsPage_start))) = Null)
   \<and> (http (baseUrl @ lit ''/news/'' @ j) = Inr (Shaped item) \<longrightarrow>
      fetch http (getNews j) = Inr (Shaped item)
      \<and> (j \<noteq> [] \<longrightarrow> news (component (NewsDetailsPage_respond 0 (fetch http (getNews j))
            (NewsDetailsPage_ngOnInit (Some j) NewsDetailsPage_start))) = Shaped item))"
  by (simp add: getNews_def NewsDetailsPage_respond_def respond_def NewsDetailsPage_ngOnInit_def
      NewsDetailsPage_start_def NewsDetailsPage_new_def subscribe_def setNews_def Let_def)

theorem getNews_passes_outcome_witness:
  "fixture_http [fixture_item (lit ''1''), fixture_item (lit ''2''), fixture_item (lit ''3'')]
      (baseUrl @ lit ''/news/'' @ lit ''missing-id'') = Inl NotFound
   \<and> fetch (fixture_http [fixture_item (lit ''1''), fixture_item (lit ''2''), fixture_item (lit ''3'')])
        (getNews (lit ''missing-id'')) = Inl NotFound
   \<and> fixture_http [fixture_item (lit ''1''), fixture_item (lit ''2''), fixture_item (lit ''3'')]
      (baseUrl @ lit ''/news/'' @ lit ''3'') = Inr (Shaped (fixture_item (lit ''3'')))
   \<and> lit ''3'' \<noteq> []
   \<and> fetch (fixture_http [fixture_item (lit ''1''), fixture_item (lit ''2''), fixture_item (lit ''3'')])
        (getNews (lit ''3'')) = Inr (Shaped (fixture_item (lit ''3'')))
   \<and> news (component (NewsDetailsPage_respond 0
        (fetch (fixture_http [fixture_item (lit ''1''), fixture_item (lit ''2''), fixture_item (lit ''3'')])
           (getNews (lit ''3'')))
        (NewsDetailsPage_ngOnInit (Some (lit ''3'')) NewsDetailsPage_start))) = Shaped (fixture_item (lit ''3''))"
proof -
  let ?h = "fixture_http [fixture_item (lit ''1''), fixture_item (lit ''2''), fixture_item (lit ''3'')]"
  have h1: "?h (baseUrl @ lit ''/news/'' @ lit ''missing-id'') = Inl NotFound"
    by (simp add: fixture_http_def fixture_item_def getNews_def lit_def)
  have h2: "?h (baseUrl @ lit ''/news/'' @ lit ''3'') = Inr (Shaped (fixture_item (lit ''3'')))"
    by (simp add: fixture_http_def fixture_item_def getNews_def lit_def)
  have h3: "lit ''3'' \<noteq> []" by (simp add: lit_def)
  note t = getNews_passes_outcome [of ?h "lit ''missing-id''" "lit ''3''" "fixture_item (lit ''3'')"]
  from t h1 have a: "fetch ?h (getNews (lit ''missing-id'')) = Inl NotFound" by blast
  from t h2 have b: "fetch ?h (getNews (lit ''3'')) = Inr (Shaped (fixture_item (lit ''3'')))" by blast
  from t h2 h3 have c: "news (component (NewsDetailsPage_respond 0 (fetch ?h (getNews (lit ''3'')))
        (NewsDetailsPage_ngOnInit (Some (lit ''3'')) NewsDetailsPage_start))) = Shaped (fixture_item (lit ''3''))"
    by blast
  show ?thesis using h1 h2 h3 a b c by blast
qed

section \<open>The list of the news page\<close>

lemma respond_error: "component (respond next k (Inl e) r) = component r"
  by (simp add: respond_def Let_def)

lemma respond_error_last: "respond next (length (inflight r)) (Inl e) (subscribe obs r) = r"
  by (simp add: respond_def subscribe_def Let_def)

text \<open>
  C6, as stated, fails. A page holds one item and the filters are submitted; the
  response is a 2xx body that is JSON but not a sequence of items, which is a decode
  error in the taxonomy of the specification. The body is handed to the callback and
  replaces the held list: the page no longer holds its previous item sequence.
\<close>

theorem misshaped_body_replaces_list:
  "failure_kind (Inr (Misshaped (lit ''{}'')) :: fetch_error + News list json) = Some DecodeError
   \<and> list_view_state fixture_populated = Populated [fixture_item (lit ''1'')]
   \<and> newsList (component (NewsPage_respond 0 (Inr (Misshaped (lit ''{}'')))
        (onFiltersSubmit fixture_populated))) = Misshaped (lit ''{}'')
   \<and> list_view_state (NewsPage_respond 0 (Inr (Misshaped (lit ''{}'')))
        (onFiltersSubmit fixture_populated)) \<noteq> list_view_state fixture_populated"
  by (simp add: fixture_populated_def NewsPage_respond_def respond_def ngOnInit_def
      onFiltersSubmit_def subscribe_def setNewsList_def NewsPage_start_def list_view_state_def
      Let_def)

text \<open>
  C6, amended. A fetch of the list that fails on the error channel of the HTTP client
  (no connection, a status that is not 2xx, a body that is not JSON), with whatever
  error, leaves the page as it was: the held list after the failure is the held list
  before it, a sequence of items or none. Issuing a fetch, on activation or on submit,
  and having it fail in this way gives back the run it started from, and so the same
  view state. A body that is emitted is never checked: the page then holds that body,
  whatever its shape.
\<close>

theorem failed_fetch_keeps_list:
  "component (NewsPage_respond k (Inl e) r) = component r
   \<and> newsList (component (NewsPage_respond k (Inl e) r)) = newsList (component r)
   \<and> NewsPage_respond (length (inflight r)) (Inl e) (ngOnInit r) = r
   \<and> NewsPage_respond (length (inflight r)) (Inl e) (onFiltersSubmit r) = r
   \<and> list_view_state (NewsPage_respond (length (inflight r)) (Inl e) (ngOnInit r)) = list_view_state r
   \<and> list_view_state (NewsPage_respond (length (inflight r)) (Inl e) (onFiltersSubmit r)) = list_view_state r
   \<and> newsList (component (NewsPage_respond (length (inflight r)) (Inr v) (ngOnInit r))) = v
   \<and> newsList (component (NewsPage_respond (length (inflight r)) (Inr v) (onFiltersSubmit r))) = v"
proof -
  have same_comp: "component (NewsPage_respond k (Inl e) r) = component r"
    by (simp add: NewsPage_respond_def respond_error)
  have same_run: "NewsPage_respond (length (inflight r)) (Inl e) (subscribe obs r) = r" for obs
    by (simp add: NewsPage_respond_def respond_error_last)
  have held: "newsList (component (NewsPage_respond (length (inflight r)) (Inr v) (subscribe obs r))) = v"
    for obs
    by (simp add: NewsPage_respond_def respond_def subscribe_def setNewsList_def)
  show ?thesis
    using same_comp same_run held by (simp add: ngOnInit_def onFiltersSubmit_def Let_def)
qed

text \<open>
  C7. A new page holds no list and has issued no fetch: the view state is \<open>Empty\<close>.
  Activation issues one request, to the base URL followed by \<open>/news\<close> with no query
  string, and the view state is \<open>Loading\<close> at once. When the response is a sequence of
  items, the view state is \<open>Populated\<close> with exactly this sequence; for five items,
  exactly those five in their order.
\<close>

theorem list_view_lifecycle:
  "newsList NewsPage_new = Null
   \<and> list_view_state NewsPage_start = Empty
   \<and> inflight (ngOnInit NewsPage_start) = [HttpGet (baseUrl @ lit ''/news'')]
   \<and> list_view_state (ngOnInit NewsPage_start) = Loading
   \<and> list_view_state (NewsPage_respond 0 (Inr (Shaped items)) (ngOnInit NewsPage_start))
       = Populated items
   \<and> newsList (component (NewsPage_respond 0 (Inr (Shaped [n1, n2, n3, n4, n5]))
        (ngOnInit NewsPage_start))) = Shaped [n1, n2, n3, n4, n5]"
  by (simp add: NewsPage_new_def NewsPage_start_def list_view_state_def ngOnInit_def subscribe_def
      getAllNews_def NewsPage_respond_def respond_def setNewsList_def)

section \<open>The details page without an identifier\<close>

lemma responses_idle: "inflight r = [] \<Longrightarrow> NewsDetailsPage_responses evs r = r"
proof (induction evs)
  case Nil
  then show ?case by simp
next
  case (Cons ev evs)
  obtain k res where ev: "ev = (k, res)" by (cases ev)
  from Cons.prems have "NewsDetailsPage_respond k res r = r"
    by (simp add: NewsDetailsPage_respond_def respond_def)
  with Cons ev show ?case by simp
qed

text \<open>
  C8. When the router has no identifier, activation of the details page issues no
  request and leaves the held item as it is. For a new page no request is in flight
  afterwards, and the held item stays absent whatever responses are delivered later.
\<close>

theorem details_no_id_no_fetch:
  "inflight (NewsDetailsPage_ngOnInit None r) = inflight r
   \<and> news (component (NewsDetailsPage_ngOnInit None r)) = news (component r)
   \<and> inflight (NewsDetailsPage_ngOnInit None NewsDetailsPage_start) = []
   \<and> news (component (NewsDetailsPage_responses evs
        (NewsDetailsPage_ngOnInit None NewsDetailsPage_start))) = Null"
proof -
  have a: "inflight (NewsDetailsPage_ngOnInit None r) = inflight r"
    and b: "news (component (NewsDetailsPage_ngOnInit None r)) = news (component r)" for r
    by (simp_all add: NewsDetailsPage_ngOnInit_def)
  have c: "inflight (NewsDetailsPage_ngOnInit None NewsDetailsPage_start) = []"
    by (simp add: a NewsDetailsPage_start_def)
  have d: "news (component (NewsDetailsPage_ngOnInit None NewsDetailsPage_start)) = Null"
    by (simp add: b NewsDetailsPage_start_def NewsDetailsPage_new_def)
  show ?thesis using a b c d by (simp add: responses_idle [OF c])
qed

section \<open>The selected tags\<close>

text \<open>
  C9. Switching a tag off removes every occurrence of it from the selected tags, so the
  tag is absent afterwards. When the tag was not selected the selected tags are the
  same as before, and the page itself is unchanged when its control holds a list (as it
  does from construction on). Switching the tag off a second time changes nothing.
\<close>

theorem onTagChange_off_removes:
  "currentTags (onTagChange tag False p) = filter (\<lambda>t. t \<noteq> tag) (currentTags p)
   \<and> tag \<notin> set (currentTags (onTagChange tag False p))
   \<and> (tag \<notin> set (currentTags p) \<longrightarrow> currentTags (onTagChange tag False p) = currentTags p)
   \<and> (tag \<notin> set (currentTags p) \<and> selectedTags p \<noteq> None \<longrightarrow> onTagChange tag False p = p)
   \<and> onTagChange tag False (onTagChange tag False p) = onTagChange tag False p"
proof -
  have noop: "onTagChange tag False p = p"
    if "tag \<notin> set (currentTags p)" "selectedTags p = Some ts" for ts
  proof -
    from that have "filter (\<lambda>t. t \<noteq> tag) ts = ts"
      by (auto simp add: currentTags_def filter_id_conv)
    with that(2) have "onTagChange tag False p = p\<lparr>selectedTags := selectedTags p\<rparr>"
      by (simp add: onTagChange_def currentTags_def)
    then show ?thesis by simp
  qed
  have cur: "currentTags (onTagChange tag False p) = filter (\<lambda>t. t \<noteq> tag) (currentTags p)" for p
    by (simp add: onTagChange_def currentTags_def)
  have idem: "onTagChange tag False (onTagChange tag False p) = onTagChange tag False p"
    by (simp add: onTagChange_def currentTags_def)
  show ?thesis
    using noop idem by (auto simp add: cur filter_id_conv)
qed

theorem onTagChange_off_removes_witness:
  "tag_Fintech \<notin> set (currentTags (onTagChange tag_Finansy True NewsPage_new))
   \<and> selectedTags (onTagChange tag_Finansy True NewsPage_new) \<noteq> None
   \<and> onTagChange tag_Fintech False (onTagChange tag_Finansy True NewsPage_new)
       = onTagChange tag_Finansy True NewsPage_new
   \<and> currentTags (onTagChange tag_Fintech False (onTagChange tag_Finansy True NewsPage_new))
       = [tag_Finansy]"
proof -
  have h1: "tag_Fintech \<notin> set (currentTags (onTagChange tag_Finansy True NewsPage_new))"
    by (simp add: onTagChange_def currentTags_def NewsPage_new_def tag_Fintech_def tag_Finansy_def)
  have h2: "selectedTags (onTagChange tag_Finansy True NewsPage_new) \<noteq> None"
    by (simp add: onTagChange_def)
  have h3: "currentTags (onTagChange tag_Finansy True NewsPage_new) = [tag_Finansy]"
    by (simp add: onTagChange_def currentTags_def NewsPage_new_def)
  show ?thesis
    using h1 h2 h3 onTagChange_off_removes [of tag_Fintech "onTagChange tag_Finansy True NewsPage_new"]
    by simp
qed

text \<open>
  C1, as stated, fails: switching the fintech tag on twice on a new page leaves it in
  the selected tags twice.
\<close>

theorem onTagChange_twice_duplicates:
  "currentTags (toggles [(tag_Fintech, True), (tag_Fintech, True)] NewsPage_new)
     = [tag_Fintech, tag_Fintech]
   \<and> \<not> distinct (currentTags (toggles [(tag_Fintech, True), (tag_Fintech, True)] NewsPage_new))"
  by (simp add: onTagChange_def currentTags_def NewsPage_new_def)

lemma onTagChange_distinct:
  "distinct (currentTags p) \<Longrightarrow> (if isChecked then tag \<notin> set (currentTags p) else True)
    \<Longrightarrow> distinct (currentTags (onTagChange tag isChecked p))"
  by (simp add: onTagChange_def currentTags_def split: if_splits)

lemma toggles_keep_distinct:
  "distinct (currentTags p) \<Longrightarrow> checkbox_toggles ops p \<Longrightarrow> distinct (currentTags (toggles ops p))"
proof (induction ops arbitrary: p)
  case Nil
  then show ?case by simp
next
  case (Cons op ops)
  obtain tag isChecked where op: "op = (tag, isChecked)" by (cases op)
  from Cons.prems op have "distinct (currentTags (onTagChange tag isChecked p))"
    by (intro onTagChange_distinct) simp_all
  moreover from Cons.prems op have "checkbox_toggles ops (onTagChange tag isChecked p)" by simp
  ultimately show ?case using Cons.IH op by simp
qed

text \<open>
  C1, amended. Switching a tag on appends it to the selected tags whether or not it is
  there already, so switching it on twice in a row adds it twice; switching it off
  removes every occurrence. The selected tags have no duplicates after every sequence
  of events that starts from selected tags without duplicates and switches a tag on
  only while it is not selected.
\<close>

theorem toggles_distinct_when_fresh:
  "currentTags (onTagChange tag True p) = currentTags p @ [tag]
   \<and> currentTags (onTagChange tag True (onTagChange tag True p)) = currentTags p @ [tag, tag]
   \<and> currentTags (onTagChange tag False p) = filter (\<lambda>t. t \<noteq> tag) (currentTags p)
   \<and> (distinct (currentTags p) \<and> checkbox_toggles ops p \<longrightarrow> distinct (currentTags (toggles ops p)))"
  by (simp add: toggles_keep_distinct) (simp add: onTagChange_def currentTags_def)

theorem toggles_distinct_when_fresh_witness:
  "distinct (currentTags NewsPage_new)
   \<and> checkbox_toggles
        [(tag_Finansy, True), (tag_Fintech, True), (tag_Finansy, False), (tag_Finansy, True)] NewsPage_new
   \<and> distinct (currentTags (toggles
        [(tag_Finansy, True), (tag_Fintech, True), (tag_Finansy, False), (tag_Finansy, True)] NewsPage_new))
   \<and> currentTags (toggles
        [(tag_Finansy, True), (tag_Fintech, True), (tag_Finansy, False), (tag_Finansy, True)] NewsPage_new)
       = [tag_Fintech, tag_Finansy]"
proof -
  have h1: "distinct (currentTags NewsPage_new)"
    by (simp add: currentTags_def NewsPage_new_def)
  have h2: "checkbox_toggles
      [(tag_Finansy, True), (tag_Fintech, True), (tag_Finansy, False), (tag_Finansy, True)] NewsPage_new"
    by (simp add: onTagChange_def currentTags_def NewsPage_new_def tag_Fintech_def tag_Finansy_def)
  have h3: "currentTags (toggles
      [(tag_Finansy, True), (tag_Fintech, True), (tag_Finansy, False), (tag_Finansy, True)] NewsPage_new)
       = [tag_Fintech, tag_Finansy]"
    by (simp add: onTagChange_def currentTags_def NewsPage_new_def tag_Fintech_def tag_Finansy_def)
  show ?thesis
    using h1 h2 h3 toggles_distinct_when_fresh [of tag_Finansy NewsPage_new
        "[(tag_Finansy, True), (tag_Fintech, True), (tag_Finansy, False), (tag_Finansy, True)]"]
    by simp
qed

end
